theory Spec2Isabelle
  imports Main "HOL-Library.Word"
begin

section \<open>Machine integers and the Vulkan value types the texture code uses\<close>

type_synonym u8 = "8 word"
type_synonym u16 = "16 word"
type_synonym u32 = "32 word"
type_synonym u64 = "64 word"

text \<open>\<^verbatim>\<open>vk::ImageType\<close>, the result type of \<^verbatim>\<open>Dimensions::GetType\<close>.\<close>

datatype ImageType = ImageType_e1D | ImageType_e2D | ImageType_e3D

text \<open>\<^verbatim>\<open>vk::Format\<close> and \<^verbatim>\<open>vk::ImageAspectFlags\<close> are 32-bit values of the host API.\<close>

type_synonym VkFormat = u32
type_synonym ImageAspectFlags = u32

datatype ComponentSwizzle = eIdentity | eZero | eOne | eR | eG | eB | eA

text \<open>
  \<^verbatim>\<open>vk::ComponentMapping\<close>: the members r, g, b and a of the host API's struct, written
  with a prefix.
\<close>

record ComponentMapping =
  swizzle_r :: ComponentSwizzle
  swizzle_g :: ComponentSwizzle
  swizzle_b :: ComponentSwizzle
  swizzle_a :: ComponentSwizzle

section \<open>texture::Dimensions\<close>

record Dimensions =
  width :: u32
  height :: u32
  depth :: u32

text \<open>
  \<^verbatim>\<open>Dimensions::GetType\<close> (texture.h, lines 30-37): depth is looked at first, then height;
  width is never read.
\<close>

definition GetType :: "Dimensions \<Rightarrow> ImageType" where
  "GetType d =
     (if depth d > 1 then ImageType_e3D
      else if height d > 1 then ImageType_e2D
      else ImageType_e1D)"

section \<open>texture::FormatBase\<close>

record FormatBase =
  bpb :: u8
  vkFormat :: VkFormat
  vkAspect :: ImageAspectFlags
  blockHeight :: u16
  blockWidth :: u16
  swizzleMapping :: ComponentMapping
  stencilFirst :: bool






text \<open>An uncompressed format of \<open>n\<close> bytes per element, with the default block size 1x1.\<close>

definition uncompressed :: "u8 \<Rightarrow> VkFormat \<Rightarrow> FormatBase" where
  "uncompressed n vf =
     \<lparr>bpb = n, vkFormat = vf, vkAspect = 1, blockHeight = 1, blockWidth = 1,
      swizzleMapping = \<lparr>swizzle_r = eR, swizzle_g = eG, swizzle_b = eB, swizzle_a = eA\<rparr>, stencilFirst = False\<rparr>"

text \<open>
  \<^verbatim>\<open>FormatBase::operator==\<close> (texture.h, lines 97-99): only the host format is compared.
\<close>

definition FormatBase_eq :: "FormatBase \<Rightarrow> FormatBase \<Rightarrow> bool" where
  "FormatBase_eq f other = (vkFormat f = vkFormat other)"

text \<open>\<^verbatim>\<open>FormatBase::IsCompatible\<close> (texture.h, lines 119-121).\<close>

definition IsCompatible :: "FormatBase \<Rightarrow> FormatBase \<Rightarrow> bool" where
  "IsCompatible f other =
     (bpb f = bpb other \<and> blockHeight f = blockHeight other \<and> blockWidth f = blockWidth other)"

section \<open>texture::Format\<close>

text \<open>
  \<^verbatim>\<open>texture::Format\<close> wraps a pointer to constant format metadata and may be null. Its
  operators never compare two non-null pointers, so the pointee (or its absence) is all
  that can be observed: the wrapper is an optional \<open>FormatBase\<close>.
\<close>

type_synonym Format = "FormatBase option"

text \<open>
  \<^verbatim>\<open>Format::operator==\<close> (texture.h, lines 159-161): the pointees are compared when both
  pointers are set; otherwise the pointers are, which then says whether both are null.
\<close>

definition Format_eq :: "Format \<Rightarrow> Format \<Rightarrow> bool" where
  "Format_eq base other =
     (case (base, other) of
        (Some x, Some y) \<Rightarrow> FormatBase_eq x y
      | _ \<Rightarrow> base = other)"

text \<open>\<^verbatim>\<open>Format::operator bool\<close> (texture.h, lines 167-169).\<close>

definition Format_bool :: "Format \<Rightarrow> bool" where
  "Format_bool base = (base \<noteq> None)"

section \<open>texture::TileConfig\<close>

datatype TileMode = Linear | Pitch | Block

text \<open>
  The anonymous union of \<^verbatim>\<open>TileConfig\<close> is kept as its three members. The comparison
  reads only the members that the mode selects, so the overlap of their storage never
  enters it.
\<close>

record TileConfig =
  mode :: TileMode
  blockHeight :: u8
  blockDepth :: u8
  pitch :: u32

text \<open>\<^verbatim>\<open>TileConfig::operator==\<close> (texture.h, lines 195-208).\<close>

definition TileConfig_eq :: "TileConfig \<Rightarrow> TileConfig \<Rightarrow> bool" where
  "TileConfig_eq t other =
     (if mode t = mode other then
        (case mode t of
           Linear \<Rightarrow> True
         | Pitch \<Rightarrow> pitch t = pitch other
         | Block \<Rightarrow> blockHeight t = blockHeight other \<and> blockDepth t = blockDepth other)
      else False)"

section \<open>GuestTexture, the descriptor of a texture in guest memory\<close>

datatype TextureType =
  TextureType_e1D | TextureType_e2D | TextureType_e3D | TextureType_eCube
  | TextureType_e1DArray | TextureType_e2DArray | TextureType_eCubeArray

text \<open>A \<^verbatim>\<open>span<u8>\<close> of guest memory: its start address and its length in bytes.\<close>

type_synonym span = "u64 \<times> u64"

record GuestTexture =
  mappings :: "span list"
  dimensions :: Dimensions
  format :: Format
  tileConfig :: TileConfig
  type :: TextureType
  baseArrayLayer :: u16
  layerCount :: u16
  layerStride :: u32
  swizzle :: ComponentMapping
  aspect :: ImageAspectFlags

text \<open>
  Modelled from the spec: \<^verbatim>\<open>GuestTexture\<close> declares no comparison of its own, and the
  texture manager that looks descriptors up is not among the sources. The specification
  makes two descriptors cache-equal when all of mappings, dimensions, format, tile
  configuration, type, base layer, layer count and layer stride compare equal. Each field
  is compared the way the source compares its type: \<open>Format_eq\<close> and \<open>TileConfig_eq\<close>
  are the operators of texture.h, \<^verbatim>\<open>Dimensions\<close> has the defaulted member-wise
  comparison (texture.h, line 28), the rest are scalars and a vector of spans.
\<close>

definition GuestTexture_cache_equal :: "GuestTexture \<Rightarrow> GuestTexture \<Rightarrow> bool" where
  "GuestTexture_cache_equal x y =
     (mappings x = mappings y
      \<and> dimensions x = dimensions y
      \<and> Format_eq (format x) (format y)
      \<and> TileConfig_eq (tileConfig x) (tileConfig y)
      \<and> type x = type y
      \<and> baseArrayLayer x = baseArrayLayer y
      \<and> layerCount x = layerCount y
      \<and> layerStride x = layerStride y)"

section \<open>TextureView\<close>

datatype ImageViewType =
  ImageViewType_e1D | ImageViewType_e2D | ImageViewType_e3D | ImageViewType_eCube
  | ImageViewType_e1DArray | ImageViewType_e2DArray | ImageViewType_eCubeArray

text \<open>\<^verbatim>\<open>vk::ImageSubresourceRange\<close>, compared member by member by the host API's header.\<close>

record ImageSubresourceRange =
  aspectMask :: ImageAspectFlags
  baseMipLevel :: u32
  levelCount :: u32
  baseArrayLayer :: u32
  layerCount :: u32

text \<open>
  A host image handle (\<^verbatim>\<open>vk::Image\<close>); 0 is the null handle. A host image view
  (\<^verbatim>\<open>vk::raii::ImageView\<close>) is known by the image it targets and the parameters it was
  created with.
\<close>

type_synonym VkImage = u64

record ImageView =
  vkImage :: VkImage
  viewType :: ImageViewType
  viewFormat :: VkFormat
  components :: ComponentMapping
  subresourceRange :: ImageSubresourceRange

text \<open>
  \<^verbatim>\<open>TextureView\<close> (texture.h, lines 285-328). \<open>texture\<close> is the shared pointer to the
  owning \<^verbatim>\<open>Texture\<close>, an address in the store of textures; \<open>view\<close> is the private cached
  host view.
\<close>

type_synonym texture_ptr = nat

record TextureView =
  view :: "ImageView option"
  texture :: texture_ptr
  type :: ImageViewType
  format :: Format
  mapping :: ComponentMapping
  range_v :: ImageSubresourceRange

text \<open>
  \<^verbatim>\<open>TextureView::operator==\<close> (texture.h, lines 325-327): the texture pointers, the view
  type, the format (by \<open>Format_eq\<close>), the component mapping and the subresource range.
\<close>

definition TextureView_eq :: "TextureView \<Rightarrow> TextureView \<Rightarrow> bool" where
  "TextureView_eq v rhs =
     (texture v = texture rhs \<and> type v = type rhs \<and> Format_eq (format v) (format rhs)
      \<and> mapping v = mapping rhs \<and> range_v v = range_v rhs)"

section \<open>Texture\<close>

text \<open>
  \<^verbatim>\<open>Texture::DirtyState\<close> (texture.h, lines 345-349). The specification calls the three
  states Clean, HostPendingUpload and DevicePendingReadback.
\<close>

datatype DirtyState = Clean | CpuDirty | GpuDirty

text \<open>
  \<^verbatim>\<open>Texture::BackingType\<close> (texture.h, line 339), a variant of a plain handle, an owned
  image and a pool-allocated image (its allocation and its handle).
\<close>

datatype BackingType =
  Backing_vkImage VkImage
  | Backing_raiiImage VkImage
  | Backing_memoryImage nat VkImage

type_synonym ImageLayout = u32
type_synonym ImageTiling = u32
type_synonym SampleCountFlagBits = u32
type_synonym TrapHandle = nat
type_synonym cycle_ptr = nat
type_synonym view_ptr = nat

text \<open>\<^verbatim>\<open>vk::ImageLayout::eUndefined\<close>, the default layout of \<^verbatim>\<open>SwapBacking\<close>.\<close>

definition ImageLayout_eUndefined :: ImageLayout where
  "ImageLayout_eUndefined = 0"

text \<open>
  The data members of class \<^verbatim>\<open>Texture\<close> (texture.h, lines 336-405). The reference to the
  GPU, the mutex and the condition variable are left out: every operation below runs with
  the texture locked by its caller, one at a time.
\<close>

record Texture =
  backing :: BackingType
  mirror :: span
  alignedMirror :: span
  trapHandle :: "TrapHandle option"
  dirtyState :: DirtyState
  views :: "view_ptr list"
  cycle :: "cycle_ptr option"
  guest :: "GuestTexture option"
  dimensions :: Dimensions
  format :: Format
  layout :: ImageLayout
  tiling :: ImageTiling
  mipLevels :: u32
  layerCount :: u32
  sampleCount :: SampleCountFlagBits

text \<open>\<^verbatim>\<open>Texture::GetBacking\<close> (texture.h, lines 423-429).\<close>

fun GetBacking_of :: "BackingType \<Rightarrow> VkImage" where
  "GetBacking_of (Backing_vkImage img) = img"
| "GetBacking_of (Backing_raiiImage img) = img"
| "GetBacking_of (Backing_memoryImage alloc img) = img"

definition GetBacking :: "Texture \<Rightarrow> VkImage" where
  "GetBacking t = GetBacking_of (backing t)"

text \<open>
  A \<^verbatim>\<open>Texture\<close> object when its constructor has initialised the members: those with a
  default member initialiser in the class (mirror, alignedMirror, trapHandle, dirtyState
  with \<^verbatim>\<open>DirtyState::CpuDirty\<close>, views, cycle; texture.h, lines 342-351 and 397) start
  from it, the others from the constructor.
\<close>

definition Texture_members ::
  "BackingType \<Rightarrow> GuestTexture option \<Rightarrow> Dimensions \<Rightarrow> Format \<Rightarrow> ImageLayout \<Rightarrow> ImageTiling
     \<Rightarrow> u32 \<Rightarrow> u32 \<Rightarrow> SampleCountFlagBits \<Rightarrow> Texture" where
  "Texture_members b gst dims fmt lay til mips layers samples =
     \<lparr>backing = b, mirror = (0, 0), alignedMirror = (0, 0), trapHandle = None,
      dirtyState = CpuDirty, views = [], cycle = None, guest = gst, dimensions = dims,
      format = fmt, layout = lay, tiling = til, mipLevels = mips, layerCount = layers,
      sampleCount = samples\<rparr>"

text \<open>
  What the host decides when a texture is created for a descriptor: the image and its
  layout, tiling, mip levels and sample count, the mirror of the guest mappings and the
  handle of the trap over it.
\<close>

record HostAllocation =
  host_backing :: BackingType
  host_layout :: ImageLayout
  host_tiling :: ImageTiling
  host_mipLevels :: u32
  host_sampleCount :: SampleCountFlagBits
  host_mirror :: span
  host_alignedMirror :: span
  host_trap :: TrapHandle

text \<open>
  Modelled from the spec: the body of the constructor \<^verbatim>\<open>Texture(GPU &, GuestTexture)\<close>
  (declared at texture.h, line 416) is in texture.cpp, which is not among the sources. The
  specification has it build the resource from the descriptor and install the device
  mirror and its trap; the dirty state is not assigned, so it keeps the default member
  initialiser.
\<close>

definition Texture_guest :: "HostAllocation \<Rightarrow> GuestTexture \<Rightarrow> Texture" where
  "Texture_guest host g =
     (Texture_members (host_backing host) (Some g) (GuestTexture.dimensions g)
        (GuestTexture.format g) (host_layout host) (host_tiling host) (host_mipLevels host)
        (ucast (GuestTexture.layerCount g)) (host_sampleCount host))
     \<lparr>mirror := host_mirror host, alignedMirror := host_alignedMirror host,
      trapHandle := Some (host_trap host)\<rparr>"

subsection \<open>The dirty-state machine\<close>

datatype error =
  exception string
  | out_of_range
  | division_by_zero
  | undefined_behaviour
  | caller_discipline_violation

text \<open>
  Modelled from the spec: \<^verbatim>\<open>Texture::SynchronizeHost\<close> (declared at texture.h, line 498;
  the specification's EnsureHostCurrent) is defined in texture.cpp, which is not among the
  sources. In state HostPendingUpload the mirror is copied to the host backing and the
  state becomes Clean, with either kind of trap; in any other state nothing happens. The
  copied bytes and the trap service are outside the record.
\<close>

definition SynchronizeHost :: "bool \<Rightarrow> Texture \<Rightarrow> Texture" where
  "SynchronizeHost rwTrap t =
     (if dirtyState t = CpuDirty then t\<lparr>dirtyState := Clean\<rparr> else t)"


text \<open>
  Modelled from the spec: \<^verbatim>\<open>Texture::MarkGpuDirty\<close> (declared at texture.h, line 460; the
  specification's MarkDeviceDirty). Clean becomes DevicePendingReadback, a texture that is
  already DevicePendingReadback is left as it is, and a call in state HostPendingUpload is
  a caller error that is rejected.
\<close>

definition MarkGpuDirty :: "Texture \<Rightarrow> error + Texture" where
  "MarkGpuDirty t =
     (case dirtyState t of
        Clean \<Rightarrow> Inr (t\<lparr>dirtyState := GpuDirty\<rparr>)
      | GpuDirty \<Rightarrow> Inr t
      | CpuDirty \<Rightarrow> Inl caller_discipline_violation)"





subsection \<open>Swapping the backing, resolving a view\<close>

text \<open>
  Modelled from the spec: \<^verbatim>\<open>Texture::SwapBacking\<close> (declared at texture.h, line 479) is
  defined in texture.cpp, which is not among the sources. It replaces the host backing,
  and the layout that comes with it.
\<close>

definition SwapBacking :: "BackingType \<Rightarrow> ImageLayout \<Rightarrow> Texture \<Rightarrow> Texture" where
  "SwapBacking b lay t = t\<lparr>backing := b, layout := lay\<rparr>"

text \<open>The textures alive, by address: what the shared pointers of the views point into.\<close>

type_synonym texture_store = "texture_ptr \<rightharpoonup> Texture"

text \<open>
  The host format of a format that may be null; \<^verbatim>\<open>vk::Format::eUndefined\<close> is 0
  (the default of \<^verbatim>\<open>FormatBase::vkFormat\<close>, texture.h, line 67).
\<close>

definition vkFormat_of :: "Format \<Rightarrow> VkFormat" where
  "vkFormat_of f = (case f of None \<Rightarrow> 0 | Some fb \<Rightarrow> vkFormat fb)"

text \<open>
  Modelled from the spec: \<^verbatim>\<open>TextureView::GetView\<close> (declared at texture.h, line 323; the
  specification's Resolve) is defined in texture.cpp. It returns a host view with the
  declared type, range and component mapping against the current backing of the owning
  texture, made on first use and made anew when the backing is no longer the one the
  cached view targets. The view's format defaults to the texture's (texture.h, line 297).
  A shared pointer keeps its texture alive; \<open>None\<close> stands for a pointer outside the
  store, which the source cannot hold.
\<close>

definition GetView :: "texture_store \<Rightarrow> TextureView \<Rightarrow> (ImageView \<times> TextureView) option" where
  "GetView store v =
     (case store (texture v) of
        None \<Rightarrow> None
      | Some t \<Rightarrow>
          let fresh = \<lparr>vkImage = GetBacking t,
                       viewType = TextureView.type v,
                       viewFormat = (case TextureView.format v of
                                       None \<Rightarrow> vkFormat_of (Texture.format t)
                                     | Some fb \<Rightarrow> vkFormat fb),
                       components = mapping v,
                       subresourceRange = range_v v\<rparr>
          in (case view v of
                None \<Rightarrow> Some (fresh, v\<lparr>view := Some fresh\<rparr>)
              | Some cached \<Rightarrow>
                  if vkImage cached = GetBacking t then Some (cached, v)
                  else Some (fresh, v\<lparr>view := Some fresh\<rparr>)))"

subsection \<open>The texture cache\<close>

text \<open>
  The cache of the texture manager: the descriptors it holds with the texture made for
  each, the store of textures, and the next free address.
\<close>

record TextureManager =
  textures :: "(GuestTexture \<times> texture_ptr) list"
  store :: texture_store
  next_ptr :: texture_ptr

text \<open>\<^verbatim>\<open>texture::TextureType\<close> takes its values from the host view types (texture.h, lines 216-224).\<close>

fun ImageViewType_of :: "TextureType \<Rightarrow> ImageViewType" where
  "ImageViewType_of TextureType_e1D = ImageViewType_e1D"
| "ImageViewType_of TextureType_e2D = ImageViewType_e2D"
| "ImageViewType_of TextureType_e3D = ImageViewType_e3D"
| "ImageViewType_of TextureType_eCube = ImageViewType_eCube"
| "ImageViewType_of TextureType_e1DArray = ImageViewType_e1DArray"
| "ImageViewType_of TextureType_e2DArray = ImageViewType_e2DArray"
| "ImageViewType_of TextureType_eCubeArray = ImageViewType_eCubeArray"

text \<open>A view of the whole texture made for descriptor \<open>g\<close>, owned by the texture at \<open>p\<close>.\<close>

definition full_view :: "texture_ptr \<Rightarrow> GuestTexture \<Rightarrow> u32 \<Rightarrow> TextureView" where
  "full_view p g mips =
     \<lparr>view = None, texture = p, type = ImageViewType_of (GuestTexture.type g),
      format = GuestTexture.format g, mapping = swizzle g,
      range_v = \<lparr>aspectMask = aspect g, baseMipLevel = 0, levelCount = mips,
                 baseArrayLayer = 0, layerCount = ucast (GuestTexture.layerCount g)\<rparr>\<rparr>"

text \<open>
  Modelled from the spec: \<^verbatim>\<open>TextureManager::FindOrCreate\<close> is not among the sources (the
  render-target and texture-pool code calls it, part_000, lines 582 and 2306). It looks
  for an entry whose descriptor is cache-equal to the one asked for. On a hit it returns
  a view of that entry's texture; on a miss it constructs a texture from the descriptor,
  inserts it under the descriptor and returns a view of it.
\<close>

definition FindOrCreate ::
  "HostAllocation \<Rightarrow> GuestTexture \<Rightarrow> TextureManager \<Rightarrow> TextureView \<times> TextureManager" where
  "FindOrCreate host g m =
     (case find (\<lambda>entry. GuestTexture_cache_equal (fst entry) g) (textures m) of
        Some entry \<Rightarrow>
          (full_view (snd entry) g
             (case store m (snd entry) of None \<Rightarrow> 1 | Some t \<Rightarrow> mipLevels t), m)
      | None \<Rightarrow>
          (full_view (next_ptr m) g (host_mipLevels host),
           m\<lparr>textures := (g, next_ptr m) # textures m,
             store := (store m)(next_ptr m \<mapsto> Texture_guest host g),
             next_ptr := Suc (next_ptr m)\<rparr>))"

section \<open>GraphicsContext: render targets and buffers\<close>

text \<open>
  The enums of the guest's registers and of the texture image control are declared in
  headers that are not among the sources (maxwell/types.h, types/tic.h). A value of such
  an enum is written by the name of its enumerator; a value without a case label in a
  switch is any other name. The host format constants of namespace \<^verbatim>\<open>format\<close>
  (gpu/texture/format.h) are not among the sources either: they are a parameter, a table
  from the name of a constant to its \<open>FormatBase\<close>.
\<close>

type_synonym enumerator = string
type_synonym format_constants = "string \<Rightarrow> FormatBase"
type_synonym IOVA = u64

text \<open>A warning of the logger: the message and the values formatted into it.\<close>

datatype LogEntry = Warn string "nat list"

text \<open>\<^verbatim>\<open>GraphicsContext::RenderTarget\<close> (part_000, lines 296-307).\<close>

record RenderTarget =
  disabled :: bool
  iova :: IOVA
  widthBytes :: u32
  guest :: GuestTexture
  view :: "view_ptr option"

text \<open>
  A view of a buffer, as the buffer manager (not among the sources) returns it from
  \<^verbatim>\<open>FindOrCreate\<close> for one guest span: it is known by that span. A \<^verbatim>\<open>BufferView\<close>
  member may be null.
\<close>

datatype BufferView = BufferView_over span

text \<open>
  \<^verbatim>\<open>GraphicsContext::VertexBuffer\<close> (part_000, lines 1768-1773), without the two binding
  descriptions of the host API.
\<close>

record VertexBuffer =
  start :: IOVA
  end' :: IOVA
  view :: "BufferView option"

text \<open>\<^verbatim>\<open>GraphicsContext::ConstantBuffer\<close> (part_000, lines 798-802).\<close>

record ConstantBuffer =
  iova :: IOVA
  size_c :: u32
  view :: "BufferView option"

text \<open>The descriptor that \<^verbatim>\<open>GetSsboViewFromDescriptor\<close> reads out of a constant buffer.\<close>

record SsboDescriptor =
  iova :: IOVA
  size_s :: u32

text \<open>The two members of the shader compiler's storage buffer descriptor that are read.\<close>

record StorageBufferDescriptor =
  cbuf_index :: nat
  cbuf_offset :: nat

text \<open>The state of \<^verbatim>\<open>GraphicsContext\<close> that the operations below touch, and the log.\<close>

record GraphicsContext =
  colorRenderTargets :: "RenderTarget list"
  depthRenderTarget :: RenderTarget
  vertexBuffers :: "VertexBuffer list"
  logged :: "LogEntry list"

subsection \<open>Buffers over translated address ranges\<close>

text \<open>
  The address translation (\<^verbatim>\<open>gmmu.TranslateRange\<close>) is an external service: a parameter
  that gives the spans for an address and a size.
\<close>

type_synonym translate_range = "IOVA \<Rightarrow> u64 \<Rightarrow> span list"

text \<open>
  Lines 1071-1075 and 1934-1938 of part_000, shared by both operations below: a count of
  mappings other than one is logged, and the buffer is looked up for the first mapping.
  \<^verbatim>\<open>front()\<close> of an empty vector is undefined behaviour. The local \<^verbatim>\<open>mappings\<close> of the
  source is \<open>spans\<close> here, \<open>mappings\<close> being the member of the descriptor.
\<close>

definition warn_unless_single :: "span list \<Rightarrow> LogEntry list \<Rightarrow> LogEntry list" where
  "warn_unless_single spans lg =
     (if length spans \<noteq> 1
      then lg @ [Warn ''Multiple buffer mappings ({}) are not supported'' [length spans]]
      else lg)"

text \<open>
  \<^verbatim>\<open>GraphicsContext::GetVertexBuffer\<close> (part_000, lines 1927-1940). \<^verbatim>\<open>at(index)\<close> throws
  out of range.
\<close>

definition GetVertexBuffer ::
  "translate_range \<Rightarrow> nat \<Rightarrow> GraphicsContext \<Rightarrow> error + (BufferView option \<times> GraphicsContext)" where
  "GetVertexBuffer TranslateRange index ctx =
     (if length (vertexBuffers ctx) \<le> index then Inl out_of_range
      else
        let vertexBuffer = vertexBuffers ctx ! index in
        if start vertexBuffer > end' vertexBuffer \<or> start vertexBuffer = 0 \<or> end' vertexBuffer = 0
        then Inr (None, ctx)
        else if VertexBuffer.view vertexBuffer \<noteq> None
        then Inr (VertexBuffer.view vertexBuffer, ctx)
        else
          let spans = TranslateRange (start vertexBuffer)
                           ((end' vertexBuffer + 1) - start vertexBuffer);
              lg = warn_unless_single spans (logged ctx)
          in (case spans of
                [] \<Rightarrow> Inl undefined_behaviour
              | front # rest \<Rightarrow>
                  Inr (Some (BufferView_over front),
                       ctx\<lparr>vertexBuffers :=
                             (vertexBuffers ctx)
                               [index := vertexBuffer\<lparr>VertexBuffer.view := Some (BufferView_over front)\<rparr>],
                           logged := lg\<rparr>)))"

text \<open>
  \<^verbatim>\<open>GraphicsContext::GetSsboViewFromDescriptor\<close> (part_000, lines 1062-1076). Reading the
  descriptor out of the constant buffer goes through the buffer's view and is a parameter;
  indexing the array of constant buffers out of range is undefined behaviour.
\<close>

definition GetSsboViewFromDescriptor ::
  "translate_range \<Rightarrow> (ConstantBuffer \<Rightarrow> nat \<Rightarrow> SsboDescriptor) \<Rightarrow> StorageBufferDescriptor
     \<Rightarrow> ConstantBuffer list \<Rightarrow> LogEntry list \<Rightarrow> error + (BufferView \<times> LogEntry list)" where
  "GetSsboViewFromDescriptor TranslateRange Read descriptor constantBuffers lg =
     (if length constantBuffers \<le> cbuf_index descriptor then Inl undefined_behaviour
      else
        let cbuf = constantBuffers ! cbuf_index descriptor;
            ssbo = Read cbuf (cbuf_offset descriptor);
            spans = TranslateRange (SsboDescriptor.iova ssbo) (ucast (size_s ssbo))
        in (case spans of
              [] \<Rightarrow> Inl undefined_behaviour
            | front # rest \<Rightarrow> Inr (BufferView_over front, warn_unless_single spans lg)))"

subsection \<open>Render target formats\<close>

text \<open>
  The case macros of \<^verbatim>\<open>SetColorRenderTargetFormat\<close> (part_000, lines 379-415). A case pastes
  the type onto the guest's and onto the host's format name; each macro stands for the
  list of its case labels with the constant returned under each.
\<close>

definition FORMAT_CASE :: "string \<Rightarrow> string \<Rightarrow> string \<Rightarrow> (enumerator \<times> string) list" where
  "FORMAT_CASE maxwellFmt skFmt ty = [(maxwellFmt @ ty, skFmt @ ty)]"

definition FORMAT_SAME_CASE :: "string \<Rightarrow> string \<Rightarrow> (enumerator \<times> string) list" where
  "FORMAT_SAME_CASE fmt ty = FORMAT_CASE fmt fmt ty"

definition FORMAT_INT_CASE :: "string \<Rightarrow> string \<Rightarrow> (enumerator \<times> string) list" where
  "FORMAT_INT_CASE maxwellFmt skFmt =
     FORMAT_CASE maxwellFmt skFmt ''Sint'' @ FORMAT_CASE maxwellFmt skFmt ''Uint''"

definition FORMAT_SAME_INT_CASE :: "string \<Rightarrow> (enumerator \<times> string) list" where
  "FORMAT_SAME_INT_CASE fmt = FORMAT_INT_CASE fmt fmt"

definition FORMAT_INT_FLOAT_CASE :: "string \<Rightarrow> string \<Rightarrow> (enumerator \<times> string) list" where
  "FORMAT_INT_FLOAT_CASE maxwellFmt skFmt =
     FORMAT_INT_CASE maxwellFmt skFmt @ FORMAT_CASE maxwellFmt skFmt ''Float''"

definition FORMAT_SAME_INT_FLOAT_CASE :: "string \<Rightarrow> (enumerator \<times> string) list" where
  "FORMAT_SAME_INT_FLOAT_CASE fmt = FORMAT_INT_FLOAT_CASE fmt fmt"

definition FORMAT_NORM_CASE :: "string \<Rightarrow> string \<Rightarrow> (enumerator \<times> string) list" where
  "FORMAT_NORM_CASE maxwellFmt skFmt =
     FORMAT_CASE maxwellFmt skFmt ''Snorm'' @ FORMAT_CASE maxwellFmt skFmt ''Unorm''"

definition FORMAT_NORM_INT_CASE :: "string \<Rightarrow> string \<Rightarrow> (enumerator \<times> string) list" where
  "FORMAT_NORM_INT_CASE maxwellFmt skFmt =
     FORMAT_NORM_CASE maxwellFmt skFmt @ FORMAT_INT_CASE maxwellFmt skFmt"

definition FORMAT_SAME_NORM_INT_CASE :: "string \<Rightarrow> (enumerator \<times> string) list" where
  "FORMAT_SAME_NORM_INT_CASE fmt = FORMAT_NORM_INT_CASE fmt fmt"

definition FORMAT_NORM_INT_SRGB_CASE :: "string \<Rightarrow> string \<Rightarrow> (enumerator \<times> string) list" where
  "FORMAT_NORM_INT_SRGB_CASE maxwellFmt skFmt =
     FORMAT_NORM_INT_CASE maxwellFmt skFmt @ FORMAT_CASE maxwellFmt skFmt ''Srgb''"

definition FORMAT_NORM_INT_FLOAT_CASE :: "string \<Rightarrow> string \<Rightarrow> (enumerator \<times> string) list" where
  "FORMAT_NORM_INT_FLOAT_CASE maxwellFmt skFmt =
     FORMAT_NORM_INT_CASE maxwellFmt skFmt @ FORMAT_CASE maxwellFmt skFmt ''Float''"

definition FORMAT_SAME_NORM_INT_FLOAT_CASE :: "string \<Rightarrow> (enumerator \<times> string) list" where
  "FORMAT_SAME_NORM_INT_FLOAT_CASE fmt = FORMAT_NORM_INT_FLOAT_CASE fmt fmt"

text \<open>
  The case labels of the switch in \<^verbatim>\<open>SetColorRenderTargetFormat\<close> after \<^verbatim>\<open>None\<close>
  (part_000, lines 421-441), in the order of the source.
\<close>

definition ColorRenderTargetFormat_cases :: "(enumerator \<times> string) list" where
  "ColorRenderTargetFormat_cases =
     FORMAT_SAME_NORM_INT_CASE ''R8''
     @ FORMAT_SAME_NORM_INT_FLOAT_CASE ''R16''
     @ FORMAT_SAME_NORM_INT_CASE ''R8G8''
     @ FORMAT_SAME_CASE ''B5G6R5'' ''Unorm''
     @ FORMAT_SAME_CASE ''B5G5R5A1'' ''Unorm''
     @ FORMAT_SAME_INT_FLOAT_CASE ''R32''
     @ FORMAT_SAME_CASE ''B10G11R11'' ''Float''
     @ FORMAT_SAME_NORM_INT_FLOAT_CASE ''R16G16''
     @ FORMAT_SAME_CASE ''R8G8B8A8'' ''Unorm''
     @ FORMAT_SAME_CASE ''R8G8B8A8'' ''Srgb''
     @ FORMAT_NORM_INT_SRGB_CASE ''R8G8B8X8'' ''R8G8B8A8''
     @ FORMAT_SAME_CASE ''B8G8R8A8'' ''Unorm''
     @ FORMAT_SAME_CASE ''B8G8R8A8'' ''Srgb''
     @ FORMAT_SAME_CASE ''A2B10G10R10'' ''Unorm''
     @ FORMAT_SAME_CASE ''A2B10G10R10'' ''Uint''
     @ FORMAT_SAME_INT_CASE ''R32G32''
     @ FORMAT_SAME_CASE ''R32G32'' ''Float''
     @ FORMAT_SAME_CASE ''R16G16B16A16'' ''Float''
     @ FORMAT_NORM_INT_FLOAT_CASE ''R16G16B16X16'' ''R16G16B16A16''
     @ FORMAT_SAME_CASE ''R32G32B32A32'' ''Float''
     @ FORMAT_INT_FLOAT_CASE ''R32G32B32X32'' ''R32G32B32A32''"

text \<open>
  The translating lambda of \<^verbatim>\<open>SetColorRenderTargetFormat\<close> (part_000, lines 378-459):
  \<^verbatim>\<open>None\<close> gives the null format, a listed value its host format, any other value throws.
\<close>

definition ColorRenderTargetFormat_translate :: "format_constants \<Rightarrow> enumerator \<Rightarrow> error + Format" where
  "ColorRenderTargetFormat_translate fmt f =
     (if f = ''None'' then Inr None
      else (case map_of ColorRenderTargetFormat_cases f of
              Some skFmt \<Rightarrow> Inr (Some (fmt skFmt))
            | None \<Rightarrow> Inl (exception ''Cannot translate the supplied color RT format: 0x{:X}'')))"

text \<open>
  What both setters do with the translated format (part_000, lines 461-465 and 490-494):
  the aspect follows a non-null format, and a linear target's width is its width in bytes
  over the bytes per block. The division is by zero when the format has no bytes.
\<close>

definition apply_format :: "Format \<Rightarrow> RenderTarget \<Rightarrow> error + RenderTarget" where
  "apply_format newFormat renderTarget =
     (let g0 = (RenderTarget.guest renderTarget)\<lparr>GuestTexture.format := newFormat\<rparr>;
          g1 = (case newFormat of None \<Rightarrow> g0 | Some fb \<Rightarrow> g0\<lparr>aspect := vkAspect fb\<rparr>)
      in (case newFormat of
            None \<Rightarrow> Inr (renderTarget\<lparr>RenderTarget.guest := g1\<rparr>)
          | Some fb \<Rightarrow>
              if mode (tileConfig g1) = Linear then
                if bpb fb = 0 then Inl division_by_zero
                else Inr (renderTarget\<lparr>RenderTarget.guest :=
                       g1\<lparr>GuestTexture.dimensions :=
                            (GuestTexture.dimensions g1)\<lparr>width := widthBytes renderTarget div ucast (bpb fb)\<rparr>\<rparr>\<rparr>)
              else Inr (renderTarget\<lparr>RenderTarget.guest := g1\<rparr>)))"

text \<open>
  \<^verbatim>\<open>GraphicsContext::SetColorRenderTargetFormat\<close> (part_000, lines 376-469).
  \<^verbatim>\<open>at(index)\<close> throws out of range before anything is translated.
\<close>

definition SetColorRenderTargetFormat ::
  "format_constants \<Rightarrow> nat \<Rightarrow> enumerator \<Rightarrow> GraphicsContext \<Rightarrow> error + GraphicsContext" where
  "SetColorRenderTargetFormat fmt index f ctx =
     (if length (colorRenderTargets ctx) \<le> index then Inl out_of_range
      else
        (case ColorRenderTargetFormat_translate fmt f of
           Inl e \<Rightarrow> Inl e
         | Inr newFormat \<Rightarrow>
             (case apply_format newFormat (colorRenderTargets ctx ! index) of
                Inl e \<Rightarrow> Inl e
              | Inr renderTarget \<Rightarrow>
                  Inr (ctx\<lparr>colorRenderTargets :=
                             (colorRenderTargets ctx)
                               [index := renderTarget\<lparr>disabled := \<not> Format_bool newFormat,
                                                     RenderTarget.view := None\<rparr>]\<rparr>))))"

text \<open>The case labels of \<^verbatim>\<open>SetDepthRenderTargetFormat\<close> (part_000, lines 475-484).\<close>

definition DepthRtFormat_cases :: "(enumerator \<times> string) list" where
  "DepthRtFormat_cases =
     [(''D16Unorm'', ''D16Unorm''),
      (''D32Float'', ''D32Float''),
      (''S8D24Unorm'', ''S8UintD24Unorm''),
      (''D24S8Unorm'', ''D24UnormS8Uint''),
      (''D32S8X24Float'', ''D32FloatS8Uint'')]"

definition DepthRtFormat_translate :: "format_constants \<Rightarrow> enumerator \<Rightarrow> error + Format" where
  "DepthRtFormat_translate fmt f =
     (case map_of DepthRtFormat_cases f of
        Some skFmt \<Rightarrow> Inr (Some (fmt skFmt))
      | None \<Rightarrow> Inl (exception ''Cannot translate the supplied depth RT format: 0x{:X}''))"

text \<open>\<^verbatim>\<open>GraphicsContext::SetDepthRenderTargetFormat\<close> (part_000, lines 471-497).\<close>

definition SetDepthRenderTargetFormat ::
  "format_constants \<Rightarrow> enumerator \<Rightarrow> GraphicsContext \<Rightarrow> error + GraphicsContext" where
  "SetDepthRenderTargetFormat fmt f ctx =
     (case DepthRtFormat_translate fmt f of
        Inl e \<Rightarrow> Inl e
      | Inr newFormat \<Rightarrow>
          (case apply_format newFormat (depthRenderTarget ctx) of
             Inl e \<Rightarrow> Inl e
           | Inr renderTarget \<Rightarrow>
               Inr (ctx\<lparr>depthRenderTarget := renderTarget\<lparr>RenderTarget.view := None\<rparr>\<rparr>)))"

subsection \<open>Texture image control: format word and header type\<close>

text \<open>
  \<^verbatim>\<open>TextureImageControl::FormatWord\<close> as \<^verbatim>\<open>ConvertTicFormat\<close> uses it: the image format,
  the four component types, the four swizzles and the padding bit that carries the sRGB
  flag (part_000, lines 2076-2081).
\<close>

record FormatWord =
  format :: enumerator
  componentR :: enumerator
  componentG :: enumerator
  componentB :: enumerator
  componentA :: enumerator
  swizzleX :: enumerator
  swizzleY :: enumerator
  swizzleZ :: enumerator
  swizzleW :: enumerator
  pad :: bool

text \<open>
  What is left of a format word under \<^verbatim>\<open>FormatColorComponentPadMask\<close>, which drops the
  swizzles (part_000, lines 2122-2124): the value that the case labels are compared with.
\<close>

type_synonym tic_key = "enumerator \<times> enumerator \<times> enumerator \<times> enumerator \<times> enumerator \<times> bool"

definition FormatColorComponentPad :: "FormatWord \<Rightarrow> tic_key" where
  "FormatColorComponentPad w =
     (FormatWord.format w, componentR w, componentG w, componentB w, componentA w, pad w)"

text \<open>The case macros of \<^verbatim>\<open>ConvertTicFormat\<close> (part_000, lines 2075-2120).\<close>

definition TIC_FORMAT ::
  "enumerator \<Rightarrow> enumerator \<Rightarrow> enumerator \<Rightarrow> enumerator \<Rightarrow> enumerator \<Rightarrow> bool \<Rightarrow> tic_key" where
  "TIC_FORMAT fmt compR compG compB compA srgb = (fmt, compR, compG, compB, compA, srgb)"

definition TIC_FORMAT_ST :: "enumerator \<Rightarrow> enumerator \<Rightarrow> tic_key" where
  "TIC_FORMAT_ST fmt component = TIC_FORMAT fmt component component component component False"

definition TIC_FORMAT_ST_SRGB :: "enumerator \<Rightarrow> enumerator \<Rightarrow> tic_key" where
  "TIC_FORMAT_ST_SRGB fmt component = TIC_FORMAT fmt component component component component True"

definition TIC_FORMAT_CASE ::
  "enumerator \<Rightarrow> string \<Rightarrow> enumerator \<Rightarrow> enumerator \<Rightarrow> enumerator \<Rightarrow> enumerator
     \<Rightarrow> (tic_key \<times> string) list" where
  "TIC_FORMAT_CASE ticFormat skFormat compR compG compB compA =
     [(TIC_FORMAT ticFormat compR compG compB compA False, skFormat)]"

definition TIC_FORMAT_CASE_ST :: "enumerator \<Rightarrow> string \<Rightarrow> enumerator \<Rightarrow> (tic_key \<times> string) list" where
  "TIC_FORMAT_CASE_ST ticFormat skFormat component =
     [(TIC_FORMAT_ST ticFormat component, skFormat @ component)]"

definition TIC_FORMAT_CASE_ST_SRGB :: "enumerator \<Rightarrow> string \<Rightarrow> enumerator \<Rightarrow> (tic_key \<times> string) list" where
  "TIC_FORMAT_CASE_ST_SRGB ticFormat skFormat component =
     [(TIC_FORMAT_ST_SRGB ticFormat component, skFormat @ ''Srgb'')]"

definition TIC_FORMAT_CASE_NORM :: "enumerator \<Rightarrow> string \<Rightarrow> (tic_key \<times> string) list" where
  "TIC_FORMAT_CASE_NORM ticFormat skFormat =
     TIC_FORMAT_CASE_ST ticFormat skFormat ''Unorm'' @ TIC_FORMAT_CASE_ST ticFormat skFormat ''Snorm''"

definition TIC_FORMAT_CASE_INT :: "enumerator \<Rightarrow> string \<Rightarrow> (tic_key \<times> string) list" where
  "TIC_FORMAT_CASE_INT ticFormat skFormat =
     TIC_FORMAT_CASE_ST ticFormat skFormat ''Uint'' @ TIC_FORMAT_CASE_ST ticFormat skFormat ''Sint''"

definition TIC_FORMAT_CASE_NORM_INT :: "enumerator \<Rightarrow> string \<Rightarrow> (tic_key \<times> string) list" where
  "TIC_FORMAT_CASE_NORM_INT ticFormat skFormat =
     TIC_FORMAT_CASE_NORM ticFormat skFormat @ TIC_FORMAT_CASE_INT ticFormat skFormat"

definition TIC_FORMAT_CASE_NORM_INT_FLOAT :: "enumerator \<Rightarrow> string \<Rightarrow> (tic_key \<times> string) list" where
  "TIC_FORMAT_CASE_NORM_INT_FLOAT ticFormat skFormat =
     TIC_FORMAT_CASE_NORM_INT ticFormat skFormat @ TIC_FORMAT_CASE_ST ticFormat skFormat ''Float''"

definition TIC_FORMAT_CASE_INT_FLOAT :: "enumerator \<Rightarrow> string \<Rightarrow> (tic_key \<times> string) list" where
  "TIC_FORMAT_CASE_INT_FLOAT ticFormat skFormat =
     TIC_FORMAT_CASE_INT ticFormat skFormat @ TIC_FORMAT_CASE_ST ticFormat skFormat ''Float''"

text \<open>The case labels of \<^verbatim>\<open>ConvertTicFormat\<close> (part_000, lines 2125-2169), in order.\<close>

definition TicFormat_cases :: "(tic_key \<times> string) list" where
  "TicFormat_cases =
     TIC_FORMAT_CASE_NORM_INT ''R8'' ''R8''
     @ TIC_FORMAT_CASE_NORM_INT_FLOAT ''R16'' ''R16''
     @ TIC_FORMAT_CASE_ST ''D16'' ''D16'' ''Unorm''
     @ TIC_FORMAT_CASE_NORM_INT ''R8G8'' ''R8G8''
     @ TIC_FORMAT_CASE_ST ''B5G6R5'' ''B5G6R5'' ''Unorm''
     @ TIC_FORMAT_CASE_ST ''R4G4B4A4'' ''R4G4B4A4'' ''Unorm''
     @ TIC_FORMAT_CASE_ST ''A1B5G5R5'' ''A1B5G5R5'' ''Unorm''
     @ TIC_FORMAT_CASE_INT_FLOAT ''R32'' ''R32''
     @ TIC_FORMAT_CASE_ST ''D32'' ''D32'' ''Float''
     @ TIC_FORMAT_CASE_NORM_INT_FLOAT ''R16G16'' ''R16G16''
     @ TIC_FORMAT_CASE ''R8G24'' ''D24UnormS8Uint'' ''Uint'' ''Unorm'' ''Unorm'' ''Unorm''
     @ TIC_FORMAT_CASE ''S8D24'' ''D24UnormS8Uint'' ''Uint'' ''Unorm'' ''Uint'' ''Uint''
     @ TIC_FORMAT_CASE ''S8D24'' ''D24UnormS8Uint'' ''Uint'' ''Unorm'' ''Unorm'' ''Unorm''
     @ TIC_FORMAT_CASE_ST ''B10G11R11'' ''B10G11R11'' ''Float''
     @ TIC_FORMAT_CASE_NORM_INT ''A8B8G8R8'' ''A8B8G8R8''
     @ TIC_FORMAT_CASE_ST_SRGB ''A8B8G8R8'' ''A8B8G8R8'' ''Unorm''
     @ TIC_FORMAT_CASE_NORM_INT ''A2B10G10R10'' ''A2B10G10R10''
     @ TIC_FORMAT_CASE_ST ''E5B9G9R9'' ''E5B9G9R9'' ''Float''
     @ TIC_FORMAT_CASE_ST ''BC1'' ''BC1'' ''Unorm''
     @ TIC_FORMAT_CASE_ST_SRGB ''BC1'' ''BC1'' ''Unorm''
     @ TIC_FORMAT_CASE_NORM ''BC4'' ''BC4''
     @ TIC_FORMAT_CASE_INT_FLOAT ''R32G32'' ''R32G32''
     @ TIC_FORMAT_CASE ''D32S8'' ''D32FloatS8Uint'' ''Float'' ''Uint'' ''Uint'' ''Unorm''
     @ TIC_FORMAT_CASE ''D32S8'' ''D32FloatS8Uint'' ''Float'' ''Uint'' ''Unorm'' ''Unorm''
     @ TIC_FORMAT_CASE_NORM_INT_FLOAT ''R16G16B16A16'' ''R16G16B16A16''
     @ TIC_FORMAT_CASE_ST ''Astc4x4'' ''Astc4x4'' ''Unorm''
     @ TIC_FORMAT_CASE_ST_SRGB ''Astc4x4'' ''Astc4x4'' ''Unorm''
     @ TIC_FORMAT_CASE_ST ''Astc6x6'' ''Astc6x6'' ''Unorm''
     @ TIC_FORMAT_CASE_ST_SRGB ''Astc6x6'' ''Astc6x6'' ''Unorm''
     @ TIC_FORMAT_CASE_ST ''Astc8x8'' ''Astc8x8'' ''Unorm''
     @ TIC_FORMAT_CASE_ST_SRGB ''Astc8x8'' ''Astc8x8'' ''Unorm''
     @ TIC_FORMAT_CASE_ST ''BC2'' ''BC2'' ''Unorm''
     @ TIC_FORMAT_CASE_ST_SRGB ''BC2'' ''BC2'' ''Unorm''
     @ TIC_FORMAT_CASE_ST ''BC3'' ''BC3'' ''Unorm''
     @ TIC_FORMAT_CASE_ST_SRGB ''BC3'' ''BC3'' ''Unorm''
     @ TIC_FORMAT_CASE_NORM ''BC5'' ''BC5''
     @ TIC_FORMAT_CASE ''Bc6HUfloat'' ''Bc6HUfloat'' ''Float'' ''Float'' ''Float'' ''Float''
     @ TIC_FORMAT_CASE ''Bc6HSfloat'' ''Bc6HSfloat'' ''Float'' ''Float'' ''Float'' ''Float''
     @ TIC_FORMAT_CASE_ST ''BC7'' ''BC7'' ''Unorm''
     @ TIC_FORMAT_CASE_ST_SRGB ''BC7'' ''BC7'' ''Unorm''
     @ TIC_FORMAT_CASE_INT_FLOAT ''R32G32B32A32'' ''R32G32B32A32''"

text \<open>
  \<^verbatim>\<open>GraphicsContext::ConvertTicFormat\<close> (part_000, lines 2073-2183): the sRGB flag is
  stored in the padding bit, the swizzles are masked away, and the rest selects the case.
\<close>

definition ConvertTicFormat :: "format_constants \<Rightarrow> FormatWord \<Rightarrow> bool \<Rightarrow> error + Format" where
  "ConvertTicFormat fmt w srgb =
     (case map_of TicFormat_cases (FormatColorComponentPad (w\<lparr>pad := srgb\<rparr>)) of
        Some skFormat \<Rightarrow> Inr (Some (fmt skFormat))
      | None \<Rightarrow> Inl (exception ''Cannot translate TIC format: 0x{:X}''))"

text \<open>
  The members of the texture image control that decide the tile configuration: the header
  type and the tile parameters of its \<^verbatim>\<open>tileConfig\<close>.
\<close>

record TicTileConfig =
  headerType :: enumerator
  pitchHigh :: u16
  tileHeightGobsLog2 :: u8
  tileDepthGobsLog2 :: u8

text \<open>
  The decoding of the header type in \<^verbatim>\<open>GetPoolTextureView\<close> (part_000, lines 2283-2297),
  with \<^verbatim>\<open>TileConfig::PitchAlignmentBits\<close> of types/tic.h as a parameter. A member of the
  tile configuration that the initialiser does not name is zero here.
\<close>

definition TicHeaderTileConfig :: "nat \<Rightarrow> TicTileConfig \<Rightarrow> error + TileConfig" where
  "TicHeaderTileConfig PitchAlignmentBits textureControl =
     (if headerType textureControl = ''Pitch'' then
        Inr \<lparr>mode = Pitch, blockHeight = 0, blockDepth = 0,
             pitch = push_bit PitchAlignmentBits (ucast (pitchHigh textureControl))\<rparr>
      else if headerType textureControl = ''BlockLinear'' then
        Inr \<lparr>mode = Block,
             blockHeight = ucast (push_bit (unat (tileHeightGobsLog2 textureControl)) (1 :: u32)),
             blockDepth = ucast (push_bit (unat (tileDepthGobsLog2 textureControl)) (1 :: u32)),
             pitch = 0\<rparr>
      else Inl (exception ''Unsupported TIC Header Type: {}''))"

subsection \<open>Values used as examples\<close>

definition example_guest :: GuestTexture where
  "example_guest =
     \<lparr>mappings = [(4096, 16384)],
      dimensions = \<lparr>width = 64, height = 64, depth = 1\<rparr>,
      format = Some (uncompressed 4 37),
      tileConfig = \<lparr>mode = Linear, blockHeight = 0, blockDepth = 0, pitch = 0\<rparr>,
      type = TextureType_e2D, baseArrayLayer = 0, layerCount = 1, layerStride = 0,
      swizzle = \<lparr>swizzle_r = eR, swizzle_g = eG, swizzle_b = eB, swizzle_a = eA\<rparr>,
      aspect = 1\<rparr>"

definition example_host :: HostAllocation where
  "example_host =
     \<lparr>host_backing = Backing_memoryImage 1 7, host_layout = 0, host_tiling = 0,
      host_mipLevels = 1, host_sampleCount = 1, host_mirror = (4096, 16384),
      host_alignedMirror = (4096, 16384), host_trap = 3\<rparr>"

definition empty_manager :: TextureManager where
  "empty_manager = \<lparr>textures = [], store = Map.empty, next_ptr = 0\<rparr>"

definition example_view :: TextureView where
  "example_view = full_view 0 example_guest 1"

definition example_render_target :: RenderTarget where
  "example_render_target =
     \<lparr>disabled = True, iova = 0, widthBytes = 256,
      guest = example_guest\<lparr>GuestTexture.format := None\<rparr>, view = None\<rparr>"

definition example_context :: GraphicsContext where
  "example_context =
     \<lparr>colorRenderTargets = replicate 8 example_render_target,
      depthRenderTarget = example_render_target,
      vertexBuffers = replicate 16 \<lparr>start = 4096, end' = 8191, view = None\<rparr>,
      logged = []\<rparr>"

text \<open>Format constants of four bytes each, told apart by their host format.\<close>

definition example_formats :: format_constants where
  "example_formats name =
     uncompressed 4
       (if name = ''R8G8B8A8Unorm'' then 37
        else if name = ''D32Float'' then 126
        else if name = ''A8B8G8R8Srgb'' then 57
        else 0)"

text \<open>A translation that splits every range into two spans, and one that keeps it whole.\<close>

definition split_translation :: translate_range where
  "split_translation address len = [(address, 1), (address + 8192, len - 1)]"

definition whole_translation :: translate_range where
  "whole_translation address len = [(address, len)]"

section \<open>Shape classification\<close>

text \<open>
  C9. \<^verbatim>\<open>GetType\<close> classifies by depth, then height, and never by width: the result is 3D
  exactly when depth exceeds 1, otherwise 2D exactly when height exceeds 1, otherwise 1D.
  A value (w, 1, 1) is 1D for every w, and the degenerate (0, 2, 1) is 2D.
\<close>

theorem GetType_depth_then_height:
  "(GetType d = ImageType_e3D) = (depth d > 1)
   \<and> (GetType d = ImageType_e2D) = (\<not> depth d > 1 \<and> height d > 1)
   \<and> (GetType d = ImageType_e1D) = (\<not> depth d > 1 \<and> \<not> height d > 1)
   \<and> GetType (d\<lparr>width := w\<rparr>) = GetType d
   \<and> GetType \<lparr>width = w, height = 1, depth = 1\<rparr> = ImageType_e1D
   \<and> GetType \<lparr>width = 0, height = 2, depth = 1\<rparr> = ImageType_e2D"
  by (simp add: GetType_def)

section \<open>Arithmetic of \<open>GetSize\<close>\<close>









section \<open>The dirty state of a new texture\<close>

text \<open>
  C1. Every texture created for a descriptor starts in state \<open>CpuDirty\<close>
  (HostPendingUpload): the members as any constructor leaves them, the texture
  constructed from a descriptor, and the texture behind the view that \<open>FindOrCreate\<close>
  returns on a cache miss, before any synchronisation has run.
\<close>

theorem new_texture_is_CpuDirty:
  "dirtyState (Texture_members bk gst dims fmt lay til mips layers samples) = CpuDirty
   \<and> dirtyState (Texture_guest host g) = CpuDirty
   \<and> (find (\<lambda>entry. GuestTexture_cache_equal (fst entry) g) (textures m) = None \<longrightarrow>
        (case FindOrCreate host g m of
           (v, m') \<Rightarrow> map_option dirtyState (store m' (texture v)) = Some CpuDirty))"
  by (simp add: Texture_members_def Texture_guest_def FindOrCreate_def full_view_def)

theorem new_texture_is_CpuDirty_witness:
  "find (\<lambda>entry. GuestTexture_cache_equal (fst entry) example_guest) (textures empty_manager) = None
   \<and> (case FindOrCreate example_host example_guest empty_manager of
           (v, m') \<Rightarrow> map_option dirtyState (store m' (texture v)) = Some CpuDirty)"
  using new_texture_is_CpuDirty [of _ _ _ _ _ _ _ _ _ example_host example_guest empty_manager]
  by (simp add: empty_manager_def)

section \<open>The dirty-state machine\<close>






text \<open>
  C3. \<open>MarkGpuDirty\<close> (MarkDeviceDirty) takes a \<open>Clean\<close> texture to \<open>GpuDirty\<close>
  (DevicePendingReadback), leaves a texture that is already \<open>GpuDirty\<close> as it is, and
  rejects the call on a \<open>CpuDirty\<close> (HostPendingUpload) texture as a caller error, with
  no new state.
\<close>

theorem MarkGpuDirty_transitions:
  "(dirtyState t = Clean \<longrightarrow> MarkGpuDirty t = Inr (t\<lparr>dirtyState := GpuDirty\<rparr>))
   \<and> (dirtyState t = GpuDirty \<longrightarrow> MarkGpuDirty t = Inr t)
   \<and> (dirtyState t = CpuDirty \<longrightarrow> MarkGpuDirty t = Inl caller_discipline_violation)"
  by (simp add: MarkGpuDirty_def)

theorem MarkGpuDirty_transitions_witness:
  "dirtyState (Texture_guest example_host example_guest) = CpuDirty
   \<and> MarkGpuDirty (Texture_guest example_host example_guest) = Inl caller_discipline_violation
   \<and> dirtyState (SynchronizeHost False (Texture_guest example_host example_guest)) = Clean
   \<and> MarkGpuDirty (SynchronizeHost False (Texture_guest example_host example_guest))
       = Inr ((Texture_guest example_host example_guest)\<lparr>dirtyState := GpuDirty\<rparr>)
   \<and> MarkGpuDirty ((Texture_guest example_host example_guest)\<lparr>dirtyState := GpuDirty\<rparr>)
       = Inr ((Texture_guest example_host example_guest)\<lparr>dirtyState := GpuDirty\<rparr>)"
  using MarkGpuDirty_transitions [of "Texture_guest example_host example_guest"]
    MarkGpuDirty_transitions [of "SynchronizeHost False (Texture_guest example_host example_guest)"]
    MarkGpuDirty_transitions [of "(Texture_guest example_host example_guest)\<lparr>dirtyState := GpuDirty\<rparr>"]
  by (simp add: Texture_guest_def Texture_members_def SynchronizeHost_def)

section \<open>Equality of descriptors and of views\<close>

lemma Format_eq_iff:
  "Format_eq x y = (map_option vkFormat x = map_option vkFormat y)"
  by (cases x; cases y) (simp_all add: Format_eq_def FormatBase_eq_def)





text \<open>
  C5, as amended. Two views compare equal exactly when they have the same owning texture,
  the same view type, the same component mapping, the same subresource range, and formats
  that are both null or both set with the same host format. The cached host view takes no
  part in the comparison.
\<close>

theorem TextureView_eq_compares_format:
  "TextureView_eq v rhs =
     (texture v = texture rhs
      \<and> TextureView.type v = TextureView.type rhs
      \<and> map_option vkFormat (TextureView.format v) = map_option vkFormat (TextureView.format rhs)
      \<and> mapping v = mapping rhs
      \<and> range_v v = range_v rhs)
   \<and> TextureView_eq v (v\<lparr>TextureView.view := c\<rparr>)"
  by (auto simp: TextureView_eq_def Format_eq_iff)

text \<open>
  Against C5 as stated: two views with the same owning texture, range, view type and
  component mapping, one with the format of the descriptor and one with the null format,
  compare unequal.
\<close>

theorem views_differing_in_format_are_unequal:
  "texture example_view = texture (example_view\<lparr>TextureView.format := None\<rparr>)
   \<and> range_v example_view = range_v (example_view\<lparr>TextureView.format := None\<rparr>)
   \<and> TextureView.type example_view = TextureView.type (example_view\<lparr>TextureView.format := None\<rparr>)
   \<and> mapping example_view = mapping (example_view\<lparr>TextureView.format := None\<rparr>)
   \<and> \<not> TextureView_eq example_view (example_view\<lparr>TextureView.format := None\<rparr>)"
  by (simp add: TextureView_eq_def example_view_def full_view_def example_guest_def Format_eq_def)

section \<open>Views across a swap of the backing\<close>

text \<open>
  C6. For a view \<open>v\<close> of a live texture \<open>t\<close>, after \<open>SwapBacking\<close> on \<open>t\<close> the same view
  resolves to a host view that targets the new backing; the view is the one it was, up to
  its cached host view, and nothing needs to be fetched again. The swap changes the
  backing and the layout of the texture and no other member.
\<close>

theorem view_survives_SwapBacking:
  "st (texture v) = Some t \<Longrightarrow>
     (\<exists>iv. GetView (st(texture v \<mapsto> SwapBacking bk lay t)) v
              = Some (iv, v\<lparr>TextureView.view := Some iv\<rparr>)
           \<and> vkImage iv = GetBacking_of bk
           \<and> TextureView_eq (v\<lparr>TextureView.view := Some iv\<rparr>) v)
     \<and> backing (SwapBacking bk lay t) = bk
     \<and> layout (SwapBacking bk lay t) = lay
     \<and> mirror (SwapBacking bk lay t) = mirror t
     \<and> alignedMirror (SwapBacking bk lay t) = alignedMirror t
     \<and> trapHandle (SwapBacking bk lay t) = trapHandle t
     \<and> dirtyState (SwapBacking bk lay t) = dirtyState t
     \<and> views (SwapBacking bk lay t) = views t
     \<and> cycle (SwapBacking bk lay t) = cycle t
     \<and> Texture.guest (SwapBacking bk lay t) = Texture.guest t
     \<and> Texture.dimensions (SwapBacking bk lay t) = Texture.dimensions t
     \<and> Texture.format (SwapBacking bk lay t) = Texture.format t
     \<and> tiling (SwapBacking bk lay t) = tiling t
     \<and> mipLevels (SwapBacking bk lay t) = mipLevels t
     \<and> Texture.layerCount (SwapBacking bk lay t) = Texture.layerCount t
     \<and> sampleCount (SwapBacking bk lay t) = sampleCount t"
proof -
  assume live: "st (texture v) = Some t"
  have target: "GetBacking (SwapBacking bk lay t) = GetBacking_of bk"
    by (simp add: GetBacking_def SwapBacking_def)
  have same: "TextureView_eq (v\<lparr>TextureView.view := c\<rparr>) v" for c
    by (cases "TextureView.format v") (simp_all add: TextureView_eq_def Format_eq_def FormatBase_eq_def)
  have "\<exists>iv. GetView (st(texture v \<mapsto> SwapBacking bk lay t)) v
               = Some (iv, v\<lparr>TextureView.view := Some iv\<rparr>)
           \<and> vkImage iv = GetBacking_of bk"
  proof (cases "TextureView.view v")
    case None
    then show ?thesis by (simp add: GetView_def target Let_def)
  next
    case (Some cached)
    then have keep: "v\<lparr>TextureView.view := Some cached\<rparr> = v" by simp
    show ?thesis
    proof (cases "vkImage cached = GetBacking_of bk")
      case True
      with Some keep show ?thesis by (simp add: GetView_def target Let_def)
    next
      case False
      with Some show ?thesis by (simp add: GetView_def target Let_def)
    qed
  qed
  then show ?thesis using same by (auto simp: SwapBacking_def)
qed

theorem view_survives_SwapBacking_witness:
  "[0 \<mapsto> Texture_guest example_host example_guest]
     (texture (example_view\<lparr>TextureView.view := Some
        \<lparr>vkImage = 7, viewType = ImageViewType_e2D, viewFormat = 37,
         components = swizzle example_guest, subresourceRange = range_v example_view\<rparr>\<rparr>))
     = Some (Texture_guest example_host example_guest)
   \<and> (\<exists>iv. GetView
          ([0 \<mapsto> Texture_guest example_host example_guest]
             (0 \<mapsto> SwapBacking (Backing_vkImage 9) ImageLayout_eUndefined
                       (Texture_guest example_host example_guest)))
          (example_view\<lparr>TextureView.view := Some
             \<lparr>vkImage = 7, viewType = ImageViewType_e2D, viewFormat = 37,
              components = swizzle example_guest, subresourceRange = range_v example_view\<rparr>\<rparr>)
        = Some (iv, example_view\<lparr>TextureView.view := Some iv\<rparr>)
      \<and> vkImage iv = 9)"
proof -
  define stale where "stale =
    \<lparr>vkImage = 7, viewType = ImageViewType_e2D, viewFormat = 37,
     components = swizzle example_guest, subresourceRange = range_v example_view\<rparr>"
  define v0 where "v0 = example_view\<lparr>TextureView.view := Some stale\<rparr>"
  define t0 where "t0 = Texture_guest example_host example_guest"
  have at0: "texture v0 = 0"
    by (simp add: v0_def example_view_def full_view_def)
  then have live: "[0 \<mapsto> t0] (texture v0) = Some t0" by simp
  from live view_survives_SwapBacking
    [of "[0 \<mapsto> t0]" v0 t0 "Backing_vkImage 9" ImageLayout_eUndefined]
  obtain iv where
    "GetView ([0 \<mapsto> t0](texture v0 \<mapsto> SwapBacking (Backing_vkImage 9) ImageLayout_eUndefined t0)) v0
       = Some (iv, v0\<lparr>TextureView.view := Some iv\<rparr>)"
    and "vkImage iv = GetBacking_of (Backing_vkImage 9)"
    by blast
  then have "GetView ([0 \<mapsto> t0](0 \<mapsto> SwapBacking (Backing_vkImage 9) ImageLayout_eUndefined t0)) v0
       = Some (iv, example_view\<lparr>TextureView.view := Some iv\<rparr>) \<and> vkImage iv = 9"
    using at0 by (simp add: v0_def)
  then show ?thesis using live unfolding v0_def stale_def t0_def by blast
qed

section \<open>Buffers over several mappings\<close>

lemma warn_unless_single_Cons:
  "warn_unless_single (front # rest) lg =
     (if rest = [] then lg
      else lg @ [Warn ''Multiple buffer mappings ({}) are not supported'' [Suc (length rest)]])"
  by (simp add: warn_unless_single_def)

lemma GetVertexBuffer_first_span:
  assumes "index < length (vertexBuffers ctx)"
    and "\<not> (start (vertexBuffers ctx ! index) > end' (vertexBuffers ctx ! index)
            \<or> start (vertexBuffers ctx ! index) = 0 \<or> end' (vertexBuffers ctx ! index) = 0)"
    and "VertexBuffer.view (vertexBuffers ctx ! index) = None"
    and "TranslateRange (start (vertexBuffers ctx ! index))
           (end' (vertexBuffers ctx ! index) + 1 - start (vertexBuffers ctx ! index))
         = front # rest"
  shows "GetVertexBuffer TranslateRange index ctx =
           Inr (Some (BufferView_over front),
                ctx\<lparr>vertexBuffers :=
                      (vertexBuffers ctx)
                        [index := (vertexBuffers ctx ! index)
                                    \<lparr>VertexBuffer.view := Some (BufferView_over front)\<rparr>],
                    logged := warn_unless_single (front # rest) (logged ctx)\<rparr>)"
  using assms by (simp add: GetVertexBuffer_def Let_def)

lemma GetSsboViewFromDescriptor_first_span:
  assumes "cbuf_index dsc < length cbs"
    and "TranslateRange (SsboDescriptor.iova (Read (cbs ! cbuf_index dsc) (cbuf_offset dsc)))
           (ucast (size_s (Read (cbs ! cbuf_index dsc) (cbuf_offset dsc))))
         = front # rest"
  shows "GetSsboViewFromDescriptor TranslateRange Read dsc cbs lg =
           Inr (BufferView_over front, warn_unless_single (front # rest) lg)"
  using assms by (simp add: GetSsboViewFromDescriptor_def Let_def)

text \<open>
  C7, as amended. When the translation of a vertex buffer's or a storage buffer's range
  returns one span or more, the operation does not fail. It makes the buffer view over the
  first span alone, whatever spans follow, and when the spans are not exactly one it
  records the warning that multiple buffer mappings are not supported, with their number.
\<close>

theorem multiple_mappings_use_first_span:
  "(index < length (vertexBuffers ctx)
      \<and> \<not> (start (vertexBuffers ctx ! index) > end' (vertexBuffers ctx ! index)
            \<or> start (vertexBuffers ctx ! index) = 0 \<or> end' (vertexBuffers ctx ! index) = 0)
      \<and> VertexBuffer.view (vertexBuffers ctx ! index) = None
      \<and> TranslateRange (start (vertexBuffers ctx ! index))
           (end' (vertexBuffers ctx ! index) + 1 - start (vertexBuffers ctx ! index))
         = front # rest
    \<longrightarrow> GetVertexBuffer TranslateRange index ctx =
           Inr (Some (BufferView_over front),
                ctx\<lparr>vertexBuffers :=
                      (vertexBuffers ctx)
                        [index := (vertexBuffers ctx ! index)
                                    \<lparr>VertexBuffer.view := Some (BufferView_over front)\<rparr>],
                    logged :=
                      (if rest = [] then logged ctx
                       else logged ctx
                            @ [Warn ''Multiple buffer mappings ({}) are not supported''
                                 [Suc (length rest)]])\<rparr>))
   \<and> (cbuf_index dsc < length cbs
      \<and> TranslateRange (SsboDescriptor.iova (Read (cbs ! cbuf_index dsc) (cbuf_offset dsc)))
           (ucast (size_s (Read (cbs ! cbuf_index dsc) (cbuf_offset dsc))))
         = front # rest
    \<longrightarrow> GetSsboViewFromDescriptor TranslateRange Read dsc cbs lg =
           Inr (BufferView_over front,
                if rest = [] then lg
                else lg @ [Warn ''Multiple buffer mappings ({}) are not supported''
                             [Suc (length rest)]]))"
  using GetVertexBuffer_first_span [of index ctx TranslateRange front rest]
    GetSsboViewFromDescriptor_first_span [of dsc cbs TranslateRange Read front rest lg]
  by (simp only: warn_unless_single_Cons) blast

theorem multiple_mappings_use_first_span_witness:
  "GetVertexBuffer split_translation 0 example_context =
     Inr (Some (BufferView_over (4096, 1)),
          example_context
            \<lparr>vertexBuffers :=
               (vertexBuffers example_context)
                 [0 := \<lparr>start = 4096, end' = 8191, view = Some (BufferView_over (4096, 1))\<rparr>],
             logged := [Warn ''Multiple buffer mappings ({}) are not supported'' [2]]\<rparr>)
   \<and> GetSsboViewFromDescriptor whole_translation
        (\<lambda>cbuf offset. \<lparr>iova = 4096, size_s = 64\<rparr>) \<lparr>cbuf_index = 0, cbuf_offset = 16\<rparr>
        [\<lparr>ConstantBuffer.iova = 0, size_c = 256, view = None\<rparr>] []
      = Inr (BufferView_over (4096, 64), [])"
  using multiple_mappings_use_first_span
    [where index = 0 and ctx = example_context and TranslateRange = split_translation
       and front = "(4096, 1)" and rest = "[(12288, 4095)]"]
    multiple_mappings_use_first_span
    [where dsc = "\<lparr>cbuf_index = 0, cbuf_offset = 16\<rparr>"
       and cbs = "[\<lparr>ConstantBuffer.iova = 0, size_c = 256, view = None\<rparr>]"
       and TranslateRange = whole_translation
       and Read = "\<lambda>cbuf offset. \<lparr>iova = 4096, size_s = 64\<rparr>"
       and front = "(4096, 64)" and rest = "[]" and lg = "[]"]
  by (simp add: example_context_def split_translation_def whole_translation_def)

text \<open>
  Against C7 as stated: the translation returns the two spans at 4096 and at 12288, and
  the vertex buffer's view is made over the span at 4096 alone; nothing is made over the
  span at 12288.
\<close>

theorem second_mapping_is_not_covered:
  "split_translation 4096 4096 = [(4096, 1), (12288, 4095)]
   \<and> map_sum id fst (GetVertexBuffer split_translation 0 example_context)
       = Inr (Some (BufferView_over (4096, 1)))
   \<and> BufferView_over (4096, 1) \<noteq> BufferView_over (12288, 4095)"
  by (simp add: GetVertexBuffer_def split_translation_def example_context_def Let_def
      warn_unless_single_def)

section \<open>Formats without a host equivalent\<close>

lemmas FORMAT_macros =
  FORMAT_CASE_def FORMAT_SAME_CASE_def FORMAT_INT_CASE_def FORMAT_SAME_INT_CASE_def
  FORMAT_INT_FLOAT_CASE_def FORMAT_SAME_INT_FLOAT_CASE_def FORMAT_NORM_CASE_def
  FORMAT_NORM_INT_CASE_def FORMAT_SAME_NORM_INT_CASE_def FORMAT_NORM_INT_SRGB_CASE_def
  FORMAT_NORM_INT_FLOAT_CASE_def FORMAT_SAME_NORM_INT_FLOAT_CASE_def

lemmas TIC_macros =
  TIC_FORMAT_def TIC_FORMAT_ST_def TIC_FORMAT_ST_SRGB_def TIC_FORMAT_CASE_def
  TIC_FORMAT_CASE_ST_def TIC_FORMAT_CASE_ST_SRGB_def TIC_FORMAT_CASE_NORM_def
  TIC_FORMAT_CASE_INT_def TIC_FORMAT_CASE_NORM_INT_def TIC_FORMAT_CASE_NORM_INT_FLOAT_def
  TIC_FORMAT_CASE_INT_FLOAT_def

text \<open>
  No case label occurs twice, as the compiler requires of a switch: looking a value up in
  the list of cases is the switch.
\<close>

lemma ColorRenderTargetFormat_cases_distinct: "distinct (map fst ColorRenderTargetFormat_cases)"
  by (simp add: ColorRenderTargetFormat_cases_def FORMAT_macros)

lemma DepthRtFormat_cases_distinct: "distinct (map fst DepthRtFormat_cases)"
  by (simp add: DepthRtFormat_cases_def)

lemma TicFormat_cases_distinct: "distinct (map fst TicFormat_cases)"
  by (simp add: TicFormat_cases_def TIC_macros)

lemma color_x8: "map_of ColorRenderTargetFormat_cases ''R8G8B8X8Unorm'' = Some ''R8G8B8A8Unorm''"
  by (simp add: ColorRenderTargetFormat_cases_def FORMAT_macros)

lemma color_unlisted: "map_of ColorRenderTargetFormat_cases ''A8R8G8B8Unorm'' = None"
  by (simp add: ColorRenderTargetFormat_cases_def FORMAT_macros)

lemma none_unlisted: "map_of ColorRenderTargetFormat_cases ''None'' = None"
  by (simp add: ColorRenderTargetFormat_cases_def FORMAT_macros)

lemma tic_srgb: "map_of TicFormat_cases (''A8B8G8R8'', ''Unorm'', ''Unorm'', ''Unorm'', ''Unorm'', True) = Some ''A8B8G8R8Srgb''"
  by (simp add: TicFormat_cases_def TIC_macros)

lemma apply_format_ok:
  assumes "\<forall>n. bpb (fmt n) \<noteq> 0"
  shows "\<exists>rt'. apply_format (Some (fmt sk)) rt = Inr rt'
           \<and> GuestTexture.format (RenderTarget.guest rt') = Some (fmt sk)"
  using assms by (simp add: apply_format_def Let_def)

lemma apply_format_null:
  "apply_format None rt = Inr (rt\<lparr>RenderTarget.guest := (RenderTarget.guest rt)\<lparr>GuestTexture.format := None\<rparr>\<rparr>)"
  by (simp add: apply_format_def Let_def)

lemma listed_iff: "(\<exists>v. map_of xs k = Some v) = (k \<in> fst ` set xs)"
  using map_of_eq_None_iff [of xs k] by auto

lemma SetColor_unlisted:
  assumes "index < length (colorRenderTargets ctx)"
    and "f \<noteq> ''None''" and "f \<notin> fst ` set ColorRenderTargetFormat_cases"
  shows "SetColorRenderTargetFormat fmt index f ctx
           = Inl (exception ''Cannot translate the supplied color RT format: 0x{:X}'')"
proof -
  have "map_of ColorRenderTargetFormat_cases f = None"
    using assms(3) by (simp add: map_of_eq_None_iff)
  then show ?thesis using assms(1,2)
    by (simp add: SetColorRenderTargetFormat_def ColorRenderTargetFormat_translate_def)
qed

lemma SetColor_listed:
  assumes "index < length (colorRenderTargets ctx)" and "\<forall>n. bpb (fmt n) \<noteq> 0"
    and "map_of ColorRenderTargetFormat_cases f = Some sk"
  shows "\<exists>ctx'. SetColorRenderTargetFormat fmt index f ctx = Inr ctx'
           \<and> GuestTexture.format (RenderTarget.guest (colorRenderTargets ctx' ! index)) = Some (fmt sk)
           \<and> \<not> disabled (colorRenderTargets ctx' ! index)"
proof -
  have notNone: "f \<noteq> ''None''" using assms(3) none_unlisted by auto
  obtain rt' where rt': "apply_format (Some (fmt sk)) (colorRenderTargets ctx ! index) = Inr rt'"
    and fmt': "GuestTexture.format (RenderTarget.guest rt') = Some (fmt sk)"
    using apply_format_ok [OF assms(2)] by blast
  show ?thesis using assms(1,3) notNone rt' fmt'
    by (simp add: SetColorRenderTargetFormat_def ColorRenderTargetFormat_translate_def Format_bool_def)
qed

lemma SetColor_None:
  assumes "index < length (colorRenderTargets ctx)"
  shows "\<exists>ctx'. SetColorRenderTargetFormat fmt index ''None'' ctx = Inr ctx'
           \<and> GuestTexture.format (RenderTarget.guest (colorRenderTargets ctx' ! index)) = None
           \<and> disabled (colorRenderTargets ctx' ! index)"
  using assms
  by (simp add: SetColorRenderTargetFormat_def ColorRenderTargetFormat_translate_def
      apply_format_null Format_bool_def)

lemma SetDepth_unlisted:
  assumes "f \<notin> fst ` set DepthRtFormat_cases"
  shows "SetDepthRenderTargetFormat fmt f ctx
           = Inl (exception ''Cannot translate the supplied depth RT format: 0x{:X}'')"
proof -
  have "map_of DepthRtFormat_cases f = None"
    using assms by (simp add: map_of_eq_None_iff)
  then show ?thesis
    by (simp add: SetDepthRenderTargetFormat_def DepthRtFormat_translate_def)
qed

lemma SetDepth_listed:
  assumes "\<forall>n. bpb (fmt n) \<noteq> 0" and "map_of DepthRtFormat_cases f = Some sk"
  shows "\<exists>ctx'. SetDepthRenderTargetFormat fmt f ctx = Inr ctx'
           \<and> GuestTexture.format (RenderTarget.guest (depthRenderTarget ctx')) = Some (fmt sk)"
proof -
  obtain rt' where rt': "apply_format (Some (fmt sk)) (depthRenderTarget ctx) = Inr rt'"
    and fmt': "GuestTexture.format (RenderTarget.guest rt') = Some (fmt sk)"
    using apply_format_ok [OF assms(1)] by blast
  show ?thesis using assms(2) rt' fmt'
    by (simp add: SetDepthRenderTargetFormat_def DepthRtFormat_translate_def)
qed

lemma ConvertTicFormat_unlisted:
  assumes "FormatColorComponentPad (w\<lparr>pad := srgb\<rparr>) \<notin> fst ` set TicFormat_cases"
  shows "ConvertTicFormat fmt w srgb = Inl (exception ''Cannot translate TIC format: 0x{:X}'')"
proof -
  have "map_of TicFormat_cases (FormatColorComponentPad (w\<lparr>pad := srgb\<rparr>)) = None"
    using assms by (simp add: map_of_eq_None_iff)
  then show ?thesis by (simp add: ConvertTicFormat_def)
qed

lemma ConvertTicFormat_listed:
  assumes "map_of TicFormat_cases (FormatColorComponentPad (w\<lparr>pad := srgb\<rparr>)) = Some sk"
  shows "ConvertTicFormat fmt w srgb = Inr (Some (fmt sk))"
  using assms by (simp add: ConvertTicFormat_def)

lemma TicHeader_cases:
  "(TicHeaderTileConfig bits tc = Inl (exception ''Unsupported TIC Header Type: {}''))
     = (headerType tc \<noteq> ''Pitch'' \<and> headerType tc \<noteq> ''BlockLinear'')"
  by (simp add: TicHeaderTileConfig_def)

lemma TicHeader_modes:
  "(headerType tc = ''Pitch'' \<longrightarrow>
      (\<exists>cfg. TicHeaderTileConfig bits tc = Inr cfg \<and> mode cfg = Pitch))
   \<and> (headerType tc = ''BlockLinear'' \<longrightarrow>
      (\<exists>cfg. TicHeaderTileConfig bits tc = Inr cfg \<and> mode cfg = Block))"
  by (simp add: TicHeaderTileConfig_def)

text \<open>
  C8. A guest format with no host equivalent is a hard failure of the translating
  operation, and a listed one is translated without failure. With a valid render target
  index and format constants of non-zero size: \<open>SetColorRenderTargetFormat\<close> throws
  exactly for the values other than None that have no case label, stores the listed
  constant for a listed value and the null format (disabling the target) for None;
  \<open>SetDepthRenderTargetFormat\<close> throws exactly for the values without a case label and
  stores the listed constant otherwise; \<open>ConvertTicFormat\<close> throws exactly for the
  format words without a case label and returns the listed constant otherwise; and the
  decoding of the header type throws exactly for the types other than Pitch and
  BlockLinear.
\<close>

theorem unsupported_format_is_hard_failure:
  assumes "index < length (colorRenderTargets ctx)" and "\<forall>n. bpb (fmt n) \<noteq> 0"
  shows
    "((SetColorRenderTargetFormat fmt index f ctx
         = Inl (exception ''Cannot translate the supplied color RT format: 0x{:X}''))
        = (f \<noteq> ''None'' \<and> f \<notin> fst ` set ColorRenderTargetFormat_cases))
     \<and> (\<forall>sk. map_of ColorRenderTargetFormat_cases f = Some sk \<longrightarrow>
           (\<exists>ctx'. SetColorRenderTargetFormat fmt index f ctx = Inr ctx'
              \<and> GuestTexture.format (RenderTarget.guest (colorRenderTargets ctx' ! index))
                  = Some (fmt sk)))
     \<and> (f = ''None'' \<longrightarrow>
           (\<exists>ctx'. SetColorRenderTargetFormat fmt index f ctx = Inr ctx'
              \<and> GuestTexture.format (RenderTarget.guest (colorRenderTargets ctx' ! index)) = None
              \<and> disabled (colorRenderTargets ctx' ! index)))
     \<and> ((SetDepthRenderTargetFormat fmt fd ctx
           = Inl (exception ''Cannot translate the supplied depth RT format: 0x{:X}''))
          = (fd \<notin> fst ` set DepthRtFormat_cases))
     \<and> (\<forall>sk. map_of DepthRtFormat_cases fd = Some sk \<longrightarrow>
           (\<exists>ctx'. SetDepthRenderTargetFormat fmt fd ctx = Inr ctx'
              \<and> GuestTexture.format (RenderTarget.guest (depthRenderTarget ctx')) = Some (fmt sk)))
     \<and> ((ConvertTicFormat fmt w srgb = Inl (exception ''Cannot translate TIC format: 0x{:X}''))
          = (FormatColorComponentPad (w\<lparr>pad := srgb\<rparr>) \<notin> fst ` set TicFormat_cases))
     \<and> (\<forall>sk. map_of TicFormat_cases (FormatColorComponentPad (w\<lparr>pad := srgb\<rparr>)) = Some sk \<longrightarrow>
           ConvertTicFormat fmt w srgb = Inr (Some (fmt sk)))
     \<and> ((TicHeaderTileConfig bits tc = Inl (exception ''Unsupported TIC Header Type: {}''))
          = (headerType tc \<noteq> ''Pitch'' \<and> headerType tc \<noteq> ''BlockLinear''))
     \<and> (headerType tc = ''Pitch'' \<longrightarrow>
           (\<exists>cfg. TicHeaderTileConfig bits tc = Inr cfg \<and> mode cfg = Pitch))
     \<and> (headerType tc = ''BlockLinear'' \<longrightarrow>
           (\<exists>cfg. TicHeaderTileConfig bits tc = Inr cfg \<and> mode cfg = Block))"
proof -
  have c1: "(SetColorRenderTargetFormat fmt index f ctx
         = Inl (exception ''Cannot translate the supplied color RT format: 0x{:X}''))
        = (f \<noteq> ''None'' \<and> f \<notin> fst ` set ColorRenderTargetFormat_cases)"
  proof
    assume thrown: "SetColorRenderTargetFormat fmt index f ctx
         = Inl (exception ''Cannot translate the supplied color RT format: 0x{:X}'')"
    show "f \<noteq> ''None'' \<and> f \<notin> fst ` set ColorRenderTargetFormat_cases"
    proof (intro conjI notI)
      assume "f = ''None''"
      then obtain ctx' where "SetColorRenderTargetFormat fmt index f ctx = Inr ctx'"
        using SetColor_None [OF assms(1), of fmt] by blast
      then show False using thrown by simp
    next
      assume "f \<in> fst ` set ColorRenderTargetFormat_cases"
      then obtain sk where "map_of ColorRenderTargetFormat_cases f = Some sk"
        using listed_iff by metis
      then obtain ctx' where "SetColorRenderTargetFormat fmt index f ctx = Inr ctx'"
        using SetColor_listed [OF assms] by blast
      then show False using thrown by simp
    qed
  next
    assume "f \<noteq> ''None'' \<and> f \<notin> fst ` set ColorRenderTargetFormat_cases"
    then show "SetColorRenderTargetFormat fmt index f ctx
         = Inl (exception ''Cannot translate the supplied color RT format: 0x{:X}'')"
      using SetColor_unlisted [OF assms(1)] by blast
  qed
  have c2: "\<forall>sk. map_of ColorRenderTargetFormat_cases f = Some sk \<longrightarrow>
           (\<exists>ctx'. SetColorRenderTargetFormat fmt index f ctx = Inr ctx'
              \<and> GuestTexture.format (RenderTarget.guest (colorRenderTargets ctx' ! index))
                  = Some (fmt sk))"
    using SetColor_listed [OF assms] by blast
  have c3: "f = ''None'' \<longrightarrow>
           (\<exists>ctx'. SetColorRenderTargetFormat fmt index f ctx = Inr ctx'
              \<and> GuestTexture.format (RenderTarget.guest (colorRenderTargets ctx' ! index)) = None
              \<and> disabled (colorRenderTargets ctx' ! index))"
    using SetColor_None [OF assms(1)] by blast
  have d1: "(SetDepthRenderTargetFormat fmt fd ctx
           = Inl (exception ''Cannot translate the supplied depth RT format: 0x{:X}''))
          = (fd \<notin> fst ` set DepthRtFormat_cases)"
  proof
    assume thrown: "SetDepthRenderTargetFormat fmt fd ctx
           = Inl (exception ''Cannot translate the supplied depth RT format: 0x{:X}'')"
    show "fd \<notin> fst ` set DepthRtFormat_cases"
    proof
      assume "fd \<in> fst ` set DepthRtFormat_cases"
      then obtain sk where "map_of DepthRtFormat_cases fd = Some sk"
        using listed_iff by metis
      then obtain ctx' where "SetDepthRenderTargetFormat fmt fd ctx = Inr ctx'"
        using SetDepth_listed [OF assms(2)] by blast
      then show False using thrown by simp
    qed
  next
    assume "fd \<notin> fst ` set DepthRtFormat_cases"
    then show "SetDepthRenderTargetFormat fmt fd ctx
           = Inl (exception ''Cannot translate the supplied depth RT format: 0x{:X}'')"
      by (rule SetDepth_unlisted)
  qed
  have d2: "\<forall>sk. map_of DepthRtFormat_cases fd = Some sk \<longrightarrow>
           (\<exists>ctx'. SetDepthRenderTargetFormat fmt fd ctx = Inr ctx'
              \<and> GuestTexture.format (RenderTarget.guest (depthRenderTarget ctx')) = Some (fmt sk))"
    using SetDepth_listed [OF assms(2)] by blast
  have t1: "(ConvertTicFormat fmt w srgb = Inl (exception ''Cannot translate TIC format: 0x{:X}''))
          = (FormatColorComponentPad (w\<lparr>pad := srgb\<rparr>) \<notin> fst ` set TicFormat_cases)"
  proof
    assume thrown: "ConvertTicFormat fmt w srgb = Inl (exception ''Cannot translate TIC format: 0x{:X}'')"
    show "FormatColorComponentPad (w\<lparr>pad := srgb\<rparr>) \<notin> fst ` set TicFormat_cases"
    proof
      assume "FormatColorComponentPad (w\<lparr>pad := srgb\<rparr>) \<in> fst ` set TicFormat_cases"
      then obtain sk where "map_of TicFormat_cases (FormatColorComponentPad (w\<lparr>pad := srgb\<rparr>)) = Some sk"
        using listed_iff by metis
      then have "ConvertTicFormat fmt w srgb = Inr (Some (fmt sk))"
        by (rule ConvertTicFormat_listed)
      then show False using thrown by simp
    qed
  next
    assume "FormatColorComponentPad (w\<lparr>pad := srgb\<rparr>) \<notin> fst ` set TicFormat_cases"
    then show "ConvertTicFormat fmt w srgb = Inl (exception ''Cannot translate TIC format: 0x{:X}'')"
      by (rule ConvertTicFormat_unlisted)
  qed
  have t2: "\<forall>sk. map_of TicFormat_cases (FormatColorComponentPad (w\<lparr>pad := srgb\<rparr>)) = Some sk \<longrightarrow>
           ConvertTicFormat fmt w srgb = Inr (Some (fmt sk))"
    using ConvertTicFormat_listed by blast
  show ?thesis
    using c1 c2 c3 d1 d2 t1 t2 TicHeader_cases [of bits tc] TicHeader_modes [of tc bits]
    by blast
qed

lemma depth_listed: "map_of DepthRtFormat_cases ''D32Float'' = Some ''D32Float''"
  by (simp add: DepthRtFormat_cases_def)

lemma depth_unlisted: "''D15Unorm'' \<notin> fst ` set DepthRtFormat_cases"
  by (simp add: DepthRtFormat_cases_def)

lemma color_unlisted_set: "''A8R8G8B8Unorm'' \<notin> fst ` set ColorRenderTargetFormat_cases"
  using color_unlisted by (simp add: map_of_eq_None_iff)

lemma tic_unlisted:
  "(''ETC2_RGB'', ''Unorm'', ''Unorm'', ''Unorm'', ''Unorm'', False) \<notin> fst ` set TicFormat_cases"
  by (simp add: TicFormat_cases_def TIC_macros)

theorem unsupported_format_is_hard_failure_witness:
  "0 < length (colorRenderTargets example_context)
   \<and> (\<forall>n. bpb (example_formats n) \<noteq> 0)
   \<and> (\<exists>ctx'. SetColorRenderTargetFormat example_formats 0 ''R8G8B8X8Unorm'' example_context = Inr ctx'
         \<and> GuestTexture.format (RenderTarget.guest (colorRenderTargets ctx' ! 0))
             = Some (example_formats ''R8G8B8A8Unorm''))
   \<and> SetColorRenderTargetFormat example_formats 0 ''A8R8G8B8Unorm'' example_context
       = Inl (exception ''Cannot translate the supplied color RT format: 0x{:X}'')
   \<and> (\<exists>ctx'. SetDepthRenderTargetFormat example_formats ''D32Float'' example_context = Inr ctx'
         \<and> GuestTexture.format (RenderTarget.guest (depthRenderTarget ctx'))
             = Some (example_formats ''D32Float''))
   \<and> SetDepthRenderTargetFormat example_formats ''D15Unorm'' example_context
       = Inl (exception ''Cannot translate the supplied depth RT format: 0x{:X}'')
   \<and> ConvertTicFormat example_formats
        \<lparr>format = ''A8B8G8R8'', componentR = ''Unorm'', componentG = ''Unorm'',
         componentB = ''Unorm'', componentA = ''Unorm'', swizzleX = ''R'', swizzleY = ''G'',
         swizzleZ = ''B'', swizzleW = ''A'', pad = False\<rparr> True
       = Inr (Some (example_formats ''A8B8G8R8Srgb''))
   \<and> ConvertTicFormat example_formats
        \<lparr>format = ''ETC2_RGB'', componentR = ''Unorm'', componentG = ''Unorm'',
         componentB = ''Unorm'', componentA = ''Unorm'', swizzleX = ''R'', swizzleY = ''G'',
         swizzleZ = ''B'', swizzleW = ''A'', pad = False\<rparr> False
       = Inl (exception ''Cannot translate TIC format: 0x{:X}'')
   \<and> TicHeaderTileConfig 5
        \<lparr>headerType = ''Buffer1D'', pitchHigh = 0, tileHeightGobsLog2 = 0, tileDepthGobsLog2 = 0\<rparr>
       = Inl (exception ''Unsupported TIC Header Type: {}'')"
proof -
  have h1: "0 < length (colorRenderTargets example_context)"
    by (simp add: example_context_def)
  have h2: "\<forall>n. bpb (example_formats n) \<noteq> 0"
    by (simp add: example_formats_def uncompressed_def)
  have k1: "FormatColorComponentPad
        (\<lparr>format = ''A8B8G8R8'', componentR = ''Unorm'', componentG = ''Unorm'',
         componentB = ''Unorm'', componentA = ''Unorm'', swizzleX = ''R'', swizzleY = ''G'',
         swizzleZ = ''B'', swizzleW = ''A'', pad = False\<rparr>\<lparr>pad := True\<rparr>)
      = (''A8B8G8R8'', ''Unorm'', ''Unorm'', ''Unorm'', ''Unorm'', True)"
    by (simp add: FormatColorComponentPad_def)
  have k2: "FormatColorComponentPad
        (\<lparr>format = ''ETC2_RGB'', componentR = ''Unorm'', componentG = ''Unorm'',
         componentB = ''Unorm'', componentA = ''Unorm'', swizzleX = ''R'', swizzleY = ''G'',
         swizzleZ = ''B'', swizzleW = ''A'', pad = False\<rparr>\<lparr>pad := False\<rparr>)
      = (''ETC2_RGB'', ''Unorm'', ''Unorm'', ''Unorm'', ''Unorm'', False)"
    by (simp add: FormatColorComponentPad_def)
  note listed = unsupported_format_is_hard_failure
    [OF h1 h2, where f = "''R8G8B8X8Unorm''" and fd = "''D32Float''"
       and w = "\<lparr>format = ''A8B8G8R8'', componentR = ''Unorm'', componentG = ''Unorm'',
         componentB = ''Unorm'', componentA = ''Unorm'', swizzleX = ''R'', swizzleY = ''G'',
         swizzleZ = ''B'', swizzleW = ''A'', pad = False\<rparr>" and srgb = True]
  note unlisted = unsupported_format_is_hard_failure
    [OF h1 h2, where f = "''A8R8G8B8Unorm''" and fd = "''D15Unorm''"
       and w = "\<lparr>format = ''ETC2_RGB'', componentR = ''Unorm'', componentG = ''Unorm'',
         componentB = ''Unorm'', componentA = ''Unorm'', swizzleX = ''R'', swizzleY = ''G'',
         swizzleZ = ''B'', swizzleW = ''A'', pad = False\<rparr>" and srgb = False
       and bits = 5
       and tc = "\<lparr>headerType = ''Buffer1D'', pitchHigh = 0, tileHeightGobsLog2 = 0,
                  tileDepthGobsLog2 = 0\<rparr>"]
  note color_listed = listed [THEN conjunct2, THEN conjunct1, rule_format]
  note depth_listed' = listed [THEN conjunct2, THEN conjunct2, THEN conjunct2, THEN conjunct2,
      THEN conjunct1, rule_format]
  note tic_listed = listed [THEN conjunct2, THEN conjunct2, THEN conjunct2, THEN conjunct2,
      THEN conjunct2, THEN conjunct2, THEN conjunct1, rule_format]
  note color_throws = unlisted [THEN conjunct1, THEN iffD2]
  note depth_throws = unlisted [THEN conjunct2, THEN conjunct2, THEN conjunct2, THEN conjunct1,
      THEN iffD2]
  note tic_throws = unlisted [THEN conjunct2, THEN conjunct2, THEN conjunct2, THEN conjunct2,
      THEN conjunct2, THEN conjunct1, THEN iffD2]
  note header_throws = unlisted [THEN conjunct2, THEN conjunct2, THEN conjunct2, THEN conjunct2,
      THEN conjunct2, THEN conjunct2, THEN conjunct2, THEN conjunct1, THEN iffD2]
  have a: "\<exists>ctx'. SetColorRenderTargetFormat example_formats 0 ''R8G8B8X8Unorm'' example_context = Inr ctx'
         \<and> GuestTexture.format (RenderTarget.guest (colorRenderTargets ctx' ! 0))
             = Some (example_formats ''R8G8B8A8Unorm'')"
    by (rule color_listed [OF color_x8])
  have b: "\<exists>ctx'. SetDepthRenderTargetFormat example_formats ''D32Float'' example_context = Inr ctx'
         \<and> GuestTexture.format (RenderTarget.guest (depthRenderTarget ctx'))
             = Some (example_formats ''D32Float'')"
    by (rule depth_listed' [OF depth_listed])
  have "map_of TicFormat_cases (FormatColorComponentPad
        (\<lparr>format = ''A8B8G8R8'', componentR = ''Unorm'', componentG = ''Unorm'',
         componentB = ''Unorm'', componentA = ''Unorm'', swizzleX = ''R'', swizzleY = ''G'',
         swizzleZ = ''B'', swizzleW = ''A'', pad = False\<rparr>\<lparr>pad := True\<rparr>))
      = Some ''A8B8G8R8Srgb''"
    unfolding k1 by (rule tic_srgb)
  then have c: "ConvertTicFormat example_formats
        \<lparr>format = ''A8B8G8R8'', componentR = ''Unorm'', componentG = ''Unorm'',
         componentB = ''Unorm'', componentA = ''Unorm'', swizzleX = ''R'', swizzleY = ''G'',
         swizzleZ = ''B'', swizzleW = ''A'', pad = False\<rparr> True
       = Inr (Some (example_formats ''A8B8G8R8Srgb''))"
    by (rule tic_listed)
  have "''A8R8G8B8Unorm'' \<noteq> ''None''" by simp
  then have d: "SetColorRenderTargetFormat example_formats 0 ''A8R8G8B8Unorm'' example_context
       = Inl (exception ''Cannot translate the supplied color RT format: 0x{:X}'')"
    using color_unlisted_set by (intro color_throws conjI)
  have e: "SetDepthRenderTargetFormat example_formats ''D15Unorm'' example_context
       = Inl (exception ''Cannot translate the supplied depth RT format: 0x{:X}'')"
    by (rule depth_throws [OF depth_unlisted])
  have "FormatColorComponentPad
        (\<lparr>format = ''ETC2_RGB'', componentR = ''Unorm'', componentG = ''Unorm'',
         componentB = ''Unorm'', componentA = ''Unorm'', swizzleX = ''R'', swizzleY = ''G'',
         swizzleZ = ''B'', swizzleW = ''A'', pad = False\<rparr>\<lparr>pad := False\<rparr>)
      \<notin> fst ` set TicFormat_cases"
    unfolding k2 by (rule tic_unlisted)
  then have f: "ConvertTicFormat example_formats
        \<lparr>format = ''ETC2_RGB'', componentR = ''Unorm'', componentG = ''Unorm'',
         componentB = ''Unorm'', componentA = ''Unorm'', swizzleX = ''R'', swizzleY = ''G'',
         swizzleZ = ''B'', swizzleW = ''A'', pad = False\<rparr> False
       = Inl (exception ''Cannot translate TIC format: 0x{:X}'')"
    by (rule tic_throws)
  have "headerType \<lparr>headerType = ''Buffer1D'', pitchHigh = 0, tileHeightGobsLog2 = 0,
                     tileDepthGobsLog2 = 0\<rparr> \<noteq> ''Pitch''
        \<and> headerType \<lparr>headerType = ''Buffer1D'', pitchHigh = 0, tileHeightGobsLog2 = 0,
                     tileDepthGobsLog2 = 0\<rparr> \<noteq> ''BlockLinear''"
    by simp
  then have g: "TicHeaderTileConfig 5
        \<lparr>headerType = ''Buffer1D'', pitchHigh = 0, tileHeightGobsLog2 = 0, tileDepthGobsLog2 = 0\<rparr>
       = Inl (exception ''Unsupported TIC Header Type: {}'')"
    by (rule header_throws)
  show ?thesis by (intro conjI h1 h2 a b c d e f g)
qed

end
